theory Spec2Isabelle
  imports Main "HOL-Library.Word"
begin

unbundle bit_operations_syntax

section \<open>The Xilinx timebase / window watchdog driver (of\_xilinx\_wdt.c)\<close>

text \<open>
  A shallow embedding of \<^verbatim>\<open>drivers/watchdog/of_xilinx_wdt.c\<close>. The C types
  \<^verbatim>\<open>u32\<close> / \<^verbatim>\<open>unsigned int\<close> are 32-bit words and \<^verbatim>\<open>u64\<close> is a 64-bit word, so
  every \<open>+\<close>, \<open>-\<close> and \<open>*\<close> wraps as in C and \<open>ucast\<close> is the C conversion between
  the two widths. Comparison on words is the unsigned comparison of C.
\<close>

type_synonym u32 = "32 word"
type_synonym u64 = "64 word"

subsection \<open>Constants\<close>

named_theorems xwt_consts \<open>the #define constants of the driver\<close>

text \<open>\<^verbatim>\<open>BIT(n)\<close> of linux/bits.h, at the width of a register.\<close>

definition BIT :: "nat \<Rightarrow> u32" where
  "BIT n = push_bit n 1"

definition XWT_WWDT_DEFAULT_TIMEOUT :: u32 where
  [xwt_consts]: "XWT_WWDT_DEFAULT_TIMEOUT = 10"

definition XWT_WWDT_MIN_TIMEOUT :: u32 where
  [xwt_consts]: "XWT_WWDT_MIN_TIMEOUT = 1"

definition XWT_TWCSR0_OFFSET :: u32 where
  [xwt_consts]: "XWT_TWCSR0_OFFSET = 0x0"

definition XWT_TWCSR1_OFFSET :: u32 where
  [xwt_consts]: "XWT_TWCSR1_OFFSET = 0x4"

definition XWT_TBR_OFFSET :: u32 where
  [xwt_consts]: "XWT_TBR_OFFSET = 0x8"

definition XWT_CSR0_WRS_MASK :: u32 where
  [xwt_consts]: "XWT_CSR0_WRS_MASK = BIT 3"

definition XWT_CSR0_WDS_MASK :: u32 where
  [xwt_consts]: "XWT_CSR0_WDS_MASK = BIT 2"

definition XWT_CSR0_EWDT1_MASK :: u32 where
  [xwt_consts]: "XWT_CSR0_EWDT1_MASK = BIT 1"

definition XWT_CSRX_EWDT2_MASK :: u32 where
  [xwt_consts]: "XWT_CSRX_EWDT2_MASK = BIT 0"

definition XWT_MAX_SELFTEST_LOOP_COUNT :: int where
  [xwt_consts]: "XWT_MAX_SELFTEST_LOOP_COUNT = 0x00010000"

definition XWT_TIMER_FAILED :: u32 where
  [xwt_consts]: "XWT_TIMER_FAILED = 0xFFFFFFFF"

definition XWT_WWDT_MWR_OFFSET :: u32 where
  [xwt_consts]: "XWT_WWDT_MWR_OFFSET = 0x00"

definition XWT_WWDT_ESR_OFFSET :: u32 where
  [xwt_consts]: "XWT_WWDT_ESR_OFFSET = 0x04"

definition XWT_WWDT_FCR_OFFSET :: u32 where
  [xwt_consts]: "XWT_WWDT_FCR_OFFSET = 0x08"

definition XWT_WWDT_FWR_OFFSET :: u32 where
  [xwt_consts]: "XWT_WWDT_FWR_OFFSET = 0x0c"

definition XWT_WWDT_SWR_OFFSET :: u32 where
  [xwt_consts]: "XWT_WWDT_SWR_OFFSET = 0x10"

definition XWT_WWDT_MWR_MASK :: u32 where
  [xwt_consts]: "XWT_WWDT_MWR_MASK = BIT 0"

definition XWT_WWDT_ESR_WINT_MASK :: u32 where
  [xwt_consts]: "XWT_WWDT_ESR_WINT_MASK = BIT 16"

definition XWT_WWDT_ESR_WSW_MASK :: u32 where
  [xwt_consts]: "XWT_WWDT_ESR_WSW_MASK = BIT 8"

definition XWT_WWDT_ESR_WEN_MASK :: u32 where
  [xwt_consts]: "XWT_WWDT_ESR_WEN_MASK = BIT 0"

definition XWT_WWDT_SBC_MASK :: u32 where
  [xwt_consts]: "XWT_WWDT_SBC_MASK = 0xFF00"

definition XWT_WWDT_SBC_SHIFT :: nat where
  [xwt_consts]: "XWT_WWDT_SBC_SHIFT = 16"

definition XWT_WWDT_BSS_MASK :: u32 where
  [xwt_consts]: "XWT_WWDT_BSS_MASK = 0xC0"

definition U32_MAX :: u32 where
  [xwt_consts]: "U32_MAX = 0xFFFFFFFF"

subsection \<open>The device\<close>

datatype xwdt_ip_type = XWDT_WDT | XWDT_WWDT

text \<open>
  \<^verbatim>\<open>struct xwdt_device\<close> together with the fields of its embedded
  \<^verbatim>\<open>struct watchdog_device\<close> that the driver reads or writes, and the parts of the
  environment the driver talks to:
  \<^item> \<open>regs\<close> is the memory-mapped register block behind \<^verbatim>\<open>base\<close>, indexed by
    byte offset and modelled as a store (a read yields the value last written);
  \<^item> \<open>iolog\<close> records every \<^verbatim>\<open>iowrite32\<close> as (offset, value), oldest first;
  \<^item> \<open>clk_rate\<close> is what \<^verbatim>\<open>clk_get_rate\<close> yields, \<open>clk_enable_ret\<close> what
    \<^verbatim>\<open>clk_enable\<close> returns, and \<open>clk_enables\<close> / \<open>clk_disables\<close> count the
    successful \<^verbatim>\<open>clk_enable\<close> and the \<^verbatim>\<open>clk_disable\<close> calls;
  \<^item> \<open>active\<close> is the \<^verbatim>\<open>WDOG_ACTIVE\<close> status bit read by \<^verbatim>\<open>watchdog_active\<close>;
    the watchdog framework sets and clears it, the driver only reads it.
\<close>

record xwdt_device =
  wdttype :: xwdt_ip_type
  regs :: "u32 \<Rightarrow> u32"
  iolog :: "(u32 \<times> u32) list"
  wdt_interval :: u32
  clk_rate :: u64
  clk_enable_ret :: int
  clk_enables :: nat
  clk_disables :: nat
  timeout :: u32
  pretimeout :: u32
  min_timeout :: u32
  max_timeout :: u32
  active :: bool

text \<open>
  The driver returns \<^verbatim>\<open>-EINVAL\<close> from three different places and hands on the
  return value of \<^verbatim>\<open>clk_enable\<close>; each early return is one constructor, and
  \<open>errno\<close> gives the C return value.
  \<^item> \<open>WindowViolation\<close>: the \<^verbatim>\<open>!is_wwdt_in_closed_window(wdd)\<close> early return;
  \<^item> \<open>ConfigurationError\<close>: the range check of set\_timeout / set\_pretimeout;
  \<^item> \<open>ClockRateZero\<close>: \<^verbatim>\<open>if (!count) return -EINVAL\<close> in start;
  \<^item> \<open>ClockEnableFailed ret\<close>: \<^verbatim>\<open>clk_enable\<close> returned \<open>ret \<noteq> 0\<close>.
\<close>

datatype xwdt_error =
    WindowViolation
  | ConfigurationError
  | ClockRateZero
  | ClockEnableFailed int

definition EINVAL :: int where
  "EINVAL = 22"

fun errno :: "xwdt_error \<Rightarrow> int" where
  "errno WindowViolation = - EINVAL"
| "errno ConfigurationError = - EINVAL"
| "errno ClockRateZero = - EINVAL"
| "errno (ClockEnableFailed ret) = ret"

type_synonym xwdt_result = "(xwdt_error + unit) \<times> xwdt_device"

subsection \<open>Register and clock access\<close>

definition ioread32 :: "xwdt_device \<Rightarrow> u32 \<Rightarrow> u32" where
  "ioread32 dev off = regs dev off"

definition iowrite32 :: "u32 \<Rightarrow> u32 \<Rightarrow> xwdt_device \<Rightarrow> xwdt_device" where
  "iowrite32 v off dev =
     dev\<lparr>regs := (regs dev)(off := v), iolog := iolog dev @ [(off, v)]\<rparr>"

definition clk_get_rate :: "xwdt_device \<Rightarrow> u64" where
  "clk_get_rate dev = clk_rate dev"

definition clk_enable :: "xwdt_device \<Rightarrow> int \<times> xwdt_device" where
  "clk_enable dev =
     (if clk_enable_ret dev = 0
      then (0, dev\<lparr>clk_enables := Suc (clk_enables dev)\<rparr>)
      else (clk_enable_ret dev, dev))"

definition clk_disable :: "xwdt_device \<Rightarrow> xwdt_device" where
  "clk_disable dev = dev\<lparr>clk_disables := Suc (clk_disables dev)\<rparr>"

definition watchdog_active :: "xwdt_device \<Rightarrow> bool" where
  "watchdog_active dev = active dev"

subsection \<open>The plain variant\<close>

definition xilinx_wdt_start :: "xwdt_device \<Rightarrow> xwdt_result" where
  "xilinx_wdt_start dev =
     (case clk_enable dev of (ret, dev1) \<Rightarrow>
        if ret \<noteq> 0 then (Inl (ClockEnableFailed ret), dev1)
        else
          let control_status_reg = ioread32 dev1 XWT_TWCSR0_OFFSET;
              control_status_reg =
                control_status_reg OR (XWT_CSR0_WRS_MASK OR XWT_CSR0_WDS_MASK);
              dev2 = iowrite32 (control_status_reg OR XWT_CSR0_EWDT1_MASK)
                       XWT_TWCSR0_OFFSET dev1;
              dev3 = iowrite32 XWT_CSRX_EWDT2_MASK XWT_TWCSR1_OFFSET dev2
          in (Inr (), dev3))"

definition xilinx_wdt_stop :: "xwdt_device \<Rightarrow> xwdt_result" where
  "xilinx_wdt_stop dev =
     (let control_status_reg = ioread32 dev XWT_TWCSR0_OFFSET;
          dev1 = iowrite32 (control_status_reg AND NOT XWT_CSR0_EWDT1_MASK)
                   XWT_TWCSR0_OFFSET dev;
          dev2 = iowrite32 0 XWT_TWCSR1_OFFSET dev1;
          dev3 = clk_disable dev2
      in (Inr (), dev3))"

definition xilinx_wdt_keepalive :: "xwdt_device \<Rightarrow> xwdt_result" where
  "xilinx_wdt_keepalive dev =
     (let control_status_reg = ioread32 dev XWT_TWCSR0_OFFSET;
          control_status_reg =
            control_status_reg OR (XWT_CSR0_WRS_MASK OR XWT_CSR0_WDS_MASK);
          dev1 = iowrite32 control_status_reg XWT_TWCSR0_OFFSET dev
      in (Inr (), dev1))"

subsection \<open>The window variant\<close>

text \<open>The C function returns an \<^verbatim>\<open>int\<close>, 0 or 1.\<close>

definition is_wwdt_in_closed_window :: "xwdt_device \<Rightarrow> int" where
  "is_wwdt_in_closed_window dev =
     (let control_status_reg = ioread32 dev XWT_WWDT_ESR_OFFSET
      in if control_status_reg AND XWT_WWDT_ESR_WEN_MASK \<noteq> 0
         then (if control_status_reg AND XWT_WWDT_ESR_WSW_MASK = 0 then 0 else 1)
         else 1)"

text \<open>
  The window state the gated operations consult: Closed when
  \<^verbatim>\<open>is_wwdt_in_closed_window\<close> returns non-zero, Open when it returns 0.
\<close>

datatype window_state = Closed | Open

definition window_state :: "xwdt_device \<Rightarrow> window_state" where
  "window_state dev = (if is_wwdt_in_closed_window dev \<noteq> 0 then Closed else Open)"

definition xilinx_wwdt_start :: "xwdt_device \<Rightarrow> xwdt_result" where
  "xilinx_wwdt_start dev =
     (let count = clk_get_rate dev in
      if count = 0 then (Inl ClockRateZero, dev)
      else
        let pre_timeout = count * ucast (pretimeout dev);
            time_out = count * ucast (timeout dev)
        in case (if \<not> watchdog_active dev then clk_enable dev else (0, dev)) of
             (ret, dev1) \<Rightarrow>
               if ret \<noteq> 0 then (Inl (ClockEnableFailed ret), dev1)
               else
                 let dev2 = iowrite32 XWT_WWDT_MWR_MASK XWT_WWDT_MWR_OFFSET dev1;
                     dev3 = iowrite32 (NOT XWT_WWDT_ESR_WEN_MASK)
                              XWT_WWDT_ESR_OFFSET dev2;
                     dev4 =
                       (if pre_timeout \<noteq> 0 then
                          let d1 = iowrite32 (ucast (time_out - pre_timeout))
                                     XWT_WWDT_FWR_OFFSET dev3;
                              d2 = iowrite32 (ucast pre_timeout)
                                     XWT_WWDT_SWR_OFFSET d1;
                              fcr = ioread32 d2 XWT_WWDT_SWR_OFFSET;
                              fcr = drop_bit XWT_WWDT_SBC_SHIFT fcr
                                      AND XWT_WWDT_SBC_MASK;
                              fcr = fcr OR XWT_WWDT_BSS_MASK
                          in iowrite32 fcr XWT_WWDT_FCR_OFFSET d2
                        else
                          let d1 = iowrite32 (ucast pre_timeout)
                                     XWT_WWDT_FWR_OFFSET dev3;
                              d2 = iowrite32 (ucast time_out)
                                     XWT_WWDT_SWR_OFFSET d1
                          in iowrite32 0x0 XWT_WWDT_FCR_OFFSET d2);
                     control_status_reg = ioread32 dev4 XWT_WWDT_ESR_OFFSET;
                     control_status_reg =
                       control_status_reg OR XWT_WWDT_ESR_WEN_MASK;
                     dev5 = iowrite32 control_status_reg XWT_WWDT_ESR_OFFSET dev4
                 in (Inr (), dev5))"

definition xilinx_wwdt_stop :: "xwdt_device \<Rightarrow> xwdt_result" where
  "xilinx_wwdt_stop dev =
     (if is_wwdt_in_closed_window dev = 0 then (Inl WindowViolation, dev)
      else
        let dev1 = iowrite32 XWT_WWDT_MWR_MASK XWT_WWDT_MWR_OFFSET dev;
            dev2 = iowrite32 (NOT XWT_WWDT_ESR_WEN_MASK) XWT_WWDT_ESR_OFFSET dev1;
            dev3 = (if watchdog_active dev2 then clk_disable dev2 else dev2)
        in (Inr (), dev3))"

definition xilinx_wwdt_keepalive :: "xwdt_device \<Rightarrow> xwdt_result" where
  "xilinx_wwdt_keepalive dev =
     (if is_wwdt_in_closed_window dev = 0 then (Inr (), dev)
      else
        let dev1 = iowrite32 XWT_WWDT_MWR_MASK XWT_WWDT_MWR_OFFSET dev;
            control_status_reg = ioread32 dev1 XWT_WWDT_ESR_OFFSET;
            control_status_reg = control_status_reg OR XWT_WWDT_ESR_WINT_MASK;
            control_status_reg =
              control_status_reg AND NOT XWT_WWDT_ESR_WSW_MASK;
            dev2 = iowrite32 control_status_reg XWT_WWDT_ESR_OFFSET dev1;
            control_status_reg = ioread32 dev2 XWT_WWDT_ESR_OFFSET;
            control_status_reg = control_status_reg OR XWT_WWDT_ESR_WSW_MASK;
            dev3 = iowrite32 control_status_reg XWT_WWDT_ESR_OFFSET dev2
        in (Inr (), dev3))"

text \<open>
  Both setters ignore the result of the restart (\<^verbatim>\<open>ret\<close> is only logged) and
  return 0.
\<close>

definition xilinx_wwdt_set_timeout :: "xwdt_device \<Rightarrow> u32 \<Rightarrow> xwdt_result" where
  "xilinx_wwdt_set_timeout dev new_time =
     (if is_wwdt_in_closed_window dev = 0 then (Inl WindowViolation, dev)
      else if new_time < min_timeout dev \<or> new_time > max_timeout dev
      then (Inl ConfigurationError, dev)
      else
        let dev1 = dev\<lparr>timeout := new_time\<rparr>;
            dev2 = dev1\<lparr>pretimeout := 0\<rparr>;
            dev3 = (if watchdog_active dev2 then snd (xilinx_wwdt_start dev2)
                    else dev2)
        in (Inr (), dev3))"

definition xilinx_wwdt_set_pretimeout :: "xwdt_device \<Rightarrow> u32 \<Rightarrow> xwdt_result" where
  "xilinx_wwdt_set_pretimeout dev new_pretimeout =
     (if is_wwdt_in_closed_window dev = 0 then (Inl WindowViolation, dev)
      else if new_pretimeout < min_timeout dev \<or> new_pretimeout \<ge> timeout dev
      then (Inl ConfigurationError, dev)
      else
        let dev1 = dev\<lparr>pretimeout := new_pretimeout\<rparr>;
            dev2 = (if watchdog_active dev1 then snd (xilinx_wwdt_start dev1)
                    else dev1)
        in (Inr (), dev2))"

subsection \<open>Self test of the plain variant\<close>

text \<open>
  The timebase register is free running, so successive reads need not agree:
  \<open>tbr k\<close> is the value the \<open>k\<close>-th \<^verbatim>\<open>ioread32\<close> of \<^verbatim>\<open>XWT_TBR_OFFSET\<close> yields
  (counting from 0). The loop state is the C variable \<^verbatim>\<open>i\<close>, the number \<open>n\<close> of
  reads made so far and \<^verbatim>\<open>timer_value2\<close>; the loop returns the last two.
\<close>

function selftest_loop :: "(nat \<Rightarrow> u32) \<Rightarrow> u32 \<Rightarrow> int \<Rightarrow> nat \<Rightarrow> u32 \<Rightarrow> nat \<times> u32" where
  "selftest_loop tbr timer_value1 i n timer_value2 =
     (if i \<le> XWT_MAX_SELFTEST_LOOP_COUNT \<and> timer_value2 = timer_value1
      then selftest_loop tbr timer_value1 (i + 1) (Suc n) (tbr n)
      else (n, timer_value2))"
  by pat_completeness auto
termination
  by (relation "measure (\<lambda>(tbr, tv1, i, n, tv2). nat (XWT_MAX_SELFTEST_LOOP_COUNT + 1 - i))")
     auto

declare selftest_loop.simps [simp del]

text \<open>The result is paired with the total number of reads of the register.\<close>

definition xwdt_selftest :: "(nat \<Rightarrow> u32) \<Rightarrow> u32 \<times> nat" where
  "xwdt_selftest tbr =
     (let timer_value1 = tbr 0;
          timer_value2 = tbr 1
      in case selftest_loop tbr timer_value1 0 2 timer_value2 of
           (n, timer_value2) \<Rightarrow>
             if timer_value2 \<noteq> timer_value1 then (NOT XWT_TIMER_FAILED, n)
             else (XWT_TIMER_FAILED, n))"

text \<open>A timebase register that is stuck at \<open>v\<close>: every read yields \<open>v\<close>.\<close>

definition stuck_timebase :: "u32 \<Rightarrow> nat \<Rightarrow> u32" where
  "stuck_timebase v = (\<lambda>k. v)"

subsection \<open>Attach: the timeout configuration\<close>

text \<open>
  The part of \<^verbatim>\<open>xwdt_probe\<close> that fills in the timeout configuration (the two
  branches on \<^verbatim>\<open>wdttype\<close> after the clock rate \<^verbatim>\<open>pfreq\<close> is known), from the
  device as \<^verbatim>\<open>devm_kzalloc\<close> and the property parsing left it. C leaves an
  unsigned division by zero and a shift by the width or more undefined; the
  source has no check before the division of the window branch, so the model
  makes that outcome explicit instead of using the division of HOL, which
  yields 0.
\<close>

datatype probe_outcome = Probe_continues xwdt_device | Undefined_behaviour

definition xwdt_probe_timeouts :: "xwdt_device \<Rightarrow> u32 \<Rightarrow> u32 \<Rightarrow> probe_outcome" where
  "xwdt_probe_timeouts dev pfreq pre_timeout =
     (case wdttype dev of
        XWDT_WDT \<Rightarrow>
          if pfreq \<noteq> 0 \<and> wdt_interval dev \<noteq> 0 then
            (if unat (wdt_interval dev) < 32
             then Probe_continues
                    (dev\<lparr>timeout := 2 * (push_bit (unat (wdt_interval dev)) 1 div pfreq)\<rparr>)
             else Undefined_behaviour)
          else Probe_continues dev
      | XWDT_WWDT \<Rightarrow>
          let dev1 = dev\<lparr>pretimeout := pre_timeout\<rparr>;
              dev2 = dev1\<lparr>timeout := XWT_WWDT_DEFAULT_TIMEOUT\<rparr>;
              dev3 = dev2\<lparr>min_timeout := XWT_WWDT_MIN_TIMEOUT\<rparr>
          in if pfreq = 0 then Undefined_behaviour
             else Probe_continues (dev3\<lparr>max_timeout := U32_MAX div pfreq\<rparr>))"

subsection \<open>Power management\<close>

text \<open>The \<^verbatim>\<open>ops\<close> table selected by the device type.\<close>

definition ops_start :: "xwdt_device \<Rightarrow> xwdt_result" where
  "ops_start dev =
     (case wdttype dev of
        XWDT_WDT \<Rightarrow> xilinx_wdt_start dev
      | XWDT_WWDT \<Rightarrow> xilinx_wwdt_start dev)"

definition ops_stop :: "xwdt_device \<Rightarrow> xwdt_result" where
  "ops_stop dev =
     (case wdttype dev of
        XWDT_WDT \<Rightarrow> xilinx_wdt_stop dev
      | XWDT_WWDT \<Rightarrow> xilinx_wwdt_stop dev)"

text \<open>Both return the C \<^verbatim>\<open>int\<close>; suspend drops the result of \<^verbatim>\<open>stop\<close>.\<close>

definition xwdt_suspend :: "xwdt_device \<Rightarrow> int \<times> xwdt_device" where
  "xwdt_suspend dev =
     (if watchdog_active dev then (0, snd (ops_stop dev)) else (0, dev))"

definition xwdt_resume :: "xwdt_device \<Rightarrow> int \<times> xwdt_device" where
  "xwdt_resume dev =
     (if watchdog_active dev
      then (case ops_start dev of
              (Inl e, dev1) \<Rightarrow> (errno e, dev1)
            | (Inr u, dev1) \<Rightarrow> (0, dev1))
      else (0, dev))"

subsection \<open>A concrete device\<close>

text \<open>
  A window watchdog on a 100 MHz clock as attach leaves it: default timeout
  10 s, no pretimeout, limits 1 s and \<open>(2^32 - 1) div 10^8 = 42\<close> s, all
  registers zero, not started.
\<close>

definition cleared_regs :: "u32 \<Rightarrow> u32" where
  "cleared_regs = (\<lambda>off. 0)"

definition wwdt_100mhz :: xwdt_device where
  "wwdt_100mhz =
     \<lparr>wdttype = XWDT_WWDT, regs = cleared_regs, iolog = [], wdt_interval = 0,
      clk_rate = 100000000, clk_enable_ret = 0, clk_enables = 0, clk_disables = 0,
      timeout = 10, pretimeout = 0, min_timeout = 1, max_timeout = 42,
      active = False\<rparr>"

text \<open>
  The same device while it runs, with the Enable/Status register reading
  \<open>0x001\<close> (enable bit set, phase-switch bit clear) and \<open>0x101\<close> (both set).
\<close>

definition wwdt_wsw_clear :: xwdt_device where
  "wwdt_wsw_clear =
     wwdt_100mhz\<lparr>regs := cleared_regs(XWT_WWDT_ESR_OFFSET := 0x001), active := True\<rparr>"

definition wwdt_wsw_set :: xwdt_device where
  "wwdt_wsw_set =
     wwdt_100mhz\<lparr>regs := cleared_regs(XWT_WWDT_ESR_OFFSET := 0x101), active := True\<rparr>"

section \<open>Properties\<close>

subsection \<open>Auxiliary facts\<close>

lemma and_BIT_eq_0_iff: "(w AND BIT n = 0) \<longleftrightarrow> \<not> bit w n" for w :: u32
  by (simp add: BIT_def and_exp_eq_0_iff_not_bit push_bit_eq_mult)

lemma is_wwdt_in_closed_window_bits:
  "is_wwdt_in_closed_window dev =
     (if bit (regs dev XWT_WWDT_ESR_OFFSET) 0 \<and> \<not> bit (regs dev XWT_WWDT_ESR_OFFSET) 8
      then 0 else 1)"
  by (simp add: is_wwdt_in_closed_window_def ioread32_def Let_def and_BIT_eq_0_iff
      XWT_WWDT_ESR_WEN_MASK_def XWT_WWDT_ESR_WSW_MASK_def)

lemma window_state_Open_iff:
  "window_state dev = Open \<longleftrightarrow> is_wwdt_in_closed_window dev = 0"
  by (simp add: window_state_def)

lemma window_state_Closed_iff:
  "window_state dev = Closed \<longleftrightarrow> is_wwdt_in_closed_window dev \<noteq> 0"
  by (simp add: window_state_def)

lemma window_state_bits:
  "window_state dev =
     (if \<not> bit (regs dev XWT_WWDT_ESR_OFFSET) 0 then Closed
      else if \<not> bit (regs dev XWT_WWDT_ESR_OFFSET) 8 then Open else Closed)"
  by (simp add: window_state_def is_wwdt_in_closed_window_bits)

lemma not_WEN_bit0: "\<not> bit (NOT XWT_WWDT_ESR_WEN_MASK) 0"
  by (simp add: XWT_WWDT_ESR_WEN_MASK_def BIT_def bit_simps)

text \<open>Starting the timer leaves the timeout configuration as it was.\<close>

lemma wwdt_start_config:
  "timeout (snd (xilinx_wwdt_start dev)) = timeout dev"
  "pretimeout (snd (xilinx_wwdt_start dev)) = pretimeout dev"
  "min_timeout (snd (xilinx_wwdt_start dev)) = min_timeout dev"
  "max_timeout (snd (xilinx_wwdt_start dev)) = max_timeout dev"
  "active (snd (xilinx_wwdt_start dev)) = active dev"
  by (simp_all add: xilinx_wwdt_start_def Let_def iowrite32_def clk_enable_def
      split: prod.splits if_splits)

text \<open>The three concrete devices, evaluated.\<close>

lemma esr_wsw_clear: "regs wwdt_wsw_clear XWT_WWDT_ESR_OFFSET = 0x001"
  by (simp add: wwdt_wsw_clear_def)

lemma esr_wsw_set: "regs wwdt_wsw_set XWT_WWDT_ESR_OFFSET = 0x101"
  by (simp add: wwdt_wsw_set_def)

lemma esr_100mhz: "regs wwdt_100mhz XWT_WWDT_ESR_OFFSET = 0"
  by (simp add: wwdt_100mhz_def cleared_regs_def)

lemma window_state_wsw_clear: "window_state wwdt_wsw_clear = Open"
  by (simp add: window_state_bits esr_wsw_clear)

lemma window_state_wsw_set: "window_state wwdt_wsw_set = Closed"
  by (simp add: window_state_bits esr_wsw_set)

lemma window_state_100mhz: "window_state wwdt_100mhz = Closed"
  by (simp add: window_state_bits esr_100mhz)

lemma fields_wsw_clear:
  "active wwdt_wsw_clear" "wdttype wwdt_wsw_clear = XWDT_WWDT"
  "iolog wwdt_wsw_clear = []" "clk_disables wwdt_wsw_clear = 0"
  "timeout wwdt_wsw_clear = 10" "pretimeout wwdt_wsw_clear = 0"
  by (simp_all add: wwdt_wsw_clear_def wwdt_100mhz_def)

lemma fields_wsw_set:
  "active wwdt_wsw_set" "wdttype wwdt_wsw_set = XWDT_WWDT"
  "iolog wwdt_wsw_set = []" "clk_disables wwdt_wsw_set = 0"
  "timeout wwdt_wsw_set = 10" "pretimeout wwdt_wsw_set = 0"
  by (simp_all add: wwdt_wsw_set_def wwdt_100mhz_def)

lemma fields_100mhz:
  "\<not> active wwdt_100mhz" "wdttype wwdt_100mhz = XWDT_WWDT"
  "iolog wwdt_100mhz = []" "clk_disables wwdt_100mhz = 0"
  "timeout wwdt_100mhz = 10" "pretimeout wwdt_100mhz = 0"
  "min_timeout wwdt_100mhz = 1" "max_timeout wwdt_100mhz = 42"
  "clk_rate wwdt_100mhz = 100000000" "clk_enable_ret wwdt_100mhz = 0"
  by (simp_all add: wwdt_100mhz_def)

text \<open>When start succeeds, and what it then leaves in the three count registers.\<close>

lemma wwdt_start_success_iff:
  "fst (xilinx_wwdt_start dev) = Inr () \<longleftrightarrow>
     clk_rate dev \<noteq> 0 \<and> (active dev \<or> clk_enable_ret dev = 0)"
  by (simp add: xilinx_wwdt_start_def Let_def clk_get_rate_def clk_enable_def
      watchdog_active_def split: prod.splits)

lemma wwdt_start_windows_written:
  assumes "fst (xilinx_wwdt_start dev) = Inr ()"
  shows "regs (snd (xilinx_wwdt_start dev)) XWT_WWDT_FWR_OFFSET =
           (if clk_rate dev * ucast (pretimeout dev) \<noteq> 0
            then ucast (clk_rate dev * ucast (timeout dev)
                        - clk_rate dev * ucast (pretimeout dev))
            else 0)"
    and "regs (snd (xilinx_wwdt_start dev)) XWT_WWDT_SWR_OFFSET =
           (if clk_rate dev * ucast (pretimeout dev) \<noteq> 0
            then ucast (clk_rate dev * ucast (pretimeout dev))
            else ucast (clk_rate dev * ucast (timeout dev)))"
    and "regs (snd (xilinx_wwdt_start dev)) XWT_WWDT_FCR_OFFSET =
           (if clk_rate dev * ucast (pretimeout dev) \<noteq> 0
            then (drop_bit 16 (ucast (clk_rate dev * ucast (pretimeout dev)) :: u32)
                    AND 0xFF00) OR 0xC0
            else 0)"
  using assms
  by (simp_all add: xilinx_wwdt_start_def Let_def clk_get_rate_def clk_enable_def
      watchdog_active_def iowrite32_def ioread32_def xwt_consts
      split: prod.splits if_splits)

text \<open>
  A cycle count \<open>f * s\<close> below \<open>2^32\<close> overflows neither the 64-bit product nor
  its truncation to a register.
\<close>

lemma unat_cycles:
  fixes f :: u64 and s :: u32
  assumes "unat f * unat s < 2 ^ 32"
  shows "unat (f * ucast s) = unat f * unat s"
    and "unat (ucast (f * ucast s) :: u32) = unat f * unat s"
proof -
  have "unat s < 2 ^ 32"
    using unsigned_less [of s] by simp
  then have "unat s < (2 :: nat) ^ 64"
    by simp
  then have up: "unat (ucast s :: u64) = unat s"
    by (simp add: unsigned_ucast_eq take_bit_nat_eq_self)
  have "unat f * unat s < (2 :: nat) ^ 64"
    using assms by simp
  then have "unat f * unat (ucast s :: u64) < 2 ^ LENGTH(64)"
    using up by simp
  then have "unat (f * ucast s) = unat f * unat (ucast s :: u64)"
    by (rule unat_mult_lem [THEN iffD1])
  then show a: "unat (f * ucast s) = unat f * unat s"
    using up by simp
  show "unat (ucast (f * ucast s) :: u32) = unat f * unat s"
    using a assms by (simp add: unsigned_ucast_eq take_bit_nat_eq_self)
qed

text \<open>
  The polling loop of the self test. On a stuck register it runs until
  \<^verbatim>\<open>i\<close> passes the loop count; and whenever it ends with the first value still
  in \<^verbatim>\<open>timer_value2\<close>, every read it made yielded that value and it ran to the
  end.
\<close>

lemma selftest_loop_stuck:
  "i \<le> XWT_MAX_SELFTEST_LOOP_COUNT + 1 \<Longrightarrow>
   selftest_loop (stuck_timebase v) v i n v =
     (n + nat (XWT_MAX_SELFTEST_LOOP_COUNT + 1 - i), v)"
proof (induction "nat (XWT_MAX_SELFTEST_LOOP_COUNT + 1 - i)" arbitrary: i n)
  case 0
  then have "\<not> i \<le> XWT_MAX_SELFTEST_LOOP_COUNT" by simp
  then show ?case using 0 by (subst selftest_loop.simps) simp
next
  case (Suc m)
  then have le: "i \<le> XWT_MAX_SELFTEST_LOOP_COUNT" by simp
  have m: "m = nat (XWT_MAX_SELFTEST_LOOP_COUNT + 1 - (i + 1))"
    using Suc.hyps(2) by simp
  have "selftest_loop (stuck_timebase v) v (i + 1) (Suc n) v =
      (Suc n + nat (XWT_MAX_SELFTEST_LOOP_COUNT + 1 - (i + 1)), v)"
    using Suc.hyps(1) [OF m] le by simp
  moreover have "selftest_loop (stuck_timebase v) v i n v =
      selftest_loop (stuck_timebase v) v (i + 1) (Suc n) v"
    using le by (subst selftest_loop.simps) (simp add: stuck_timebase_def)
  ultimately show ?case using le by (simp add: nat_diff_distrib)
qed

lemma selftest_loop_fail:
  "i \<le> XWT_MAX_SELFTEST_LOOP_COUNT + 1 \<Longrightarrow>
   selftest_loop tbr tv1 i n tv2 = (n', tv1) \<Longrightarrow>
   tv2 = tv1 \<and> (\<forall>k. n \<le> k \<and> k < n' \<longrightarrow> tbr k = tv1)
     \<and> n' = n + nat (XWT_MAX_SELFTEST_LOOP_COUNT + 1 - i)"
proof (induction "nat (XWT_MAX_SELFTEST_LOOP_COUNT + 1 - i)" arbitrary: i n tv2)
  case 0
  then have "\<not> i \<le> XWT_MAX_SELFTEST_LOOP_COUNT" by simp
  then have "selftest_loop tbr tv1 i n tv2 = (n, tv2)"
    by (subst selftest_loop.simps) simp
  with 0 show ?case by auto
next
  case (Suc m)
  then have le: "i \<le> XWT_MAX_SELFTEST_LOOP_COUNT" by simp
  have m: "m = nat (XWT_MAX_SELFTEST_LOOP_COUNT + 1 - (i + 1))"
    using Suc.hyps(2) by simp
  show ?case
  proof (cases "tv2 = tv1")
    case False
    then have "selftest_loop tbr tv1 i n tv2 = (n, tv2)"
      by (subst selftest_loop.simps) simp
    with Suc.prems False show ?thesis by simp
  next
    case True
    then have "selftest_loop tbr tv1 i n tv2 =
        selftest_loop tbr tv1 (i + 1) (Suc n) (tbr n)"
      using le by (subst selftest_loop.simps) simp
    with Suc.prems have r: "selftest_loop tbr tv1 (i + 1) (Suc n) (tbr n) = (n', tv1)"
      by simp
    have ih: "tbr n = tv1 \<and> (\<forall>k. Suc n \<le> k \<and> k < n' \<longrightarrow> tbr k = tv1)
        \<and> n' = Suc n + nat (XWT_MAX_SELFTEST_LOOP_COUNT + 1 - (i + 1))"
      using Suc.hyps(1) [OF m _ r] le by simp
    have "\<forall>k. n \<le> k \<and> k < n' \<longrightarrow> tbr k = tv1"
    proof (intro allI impI)
      fix k assume "n \<le> k \<and> k < n'"
      then have "k = n \<or> (Suc n \<le> k \<and> k < n')" by arith
      with ih show "tbr k = tv1" by blast
    qed
    with ih True le show ?thesis by (simp add: nat_diff_distrib)
  qed
qed

text \<open>
  \<open>wwdt_100mhz\<close> carries the timeout configuration that attach computes for a
  window device on a 100 MHz clock with no pretimeout in its description.
\<close>

lemma xwdt_probe_gives_wwdt_100mhz:
  "xwdt_probe_timeouts
     (wwdt_100mhz\<lparr>timeout := 0, pretimeout := 0, min_timeout := 0, max_timeout := 0\<rparr>)
     100000000 0
   = Probe_continues wwdt_100mhz"
  by (simp add: xwdt_probe_timeouts_def wwdt_100mhz_def xwt_consts)

subsection \<open>The window state read from Enable/Status\<close>

text \<open>
  Claim C2, as the code has it. For every value of the Enable/Status register
  the window state reads Closed when the enable bit (bit 0) is clear; when the
  enable bit is set it reads Open if the phase-switch bit (bit 8) is clear and
  Closed if the phase-switch bit is set. Consequently, with the device enabled
  and the phase-switch bit clear, stop returns the WindowViolation error and
  keepalive returns success, both without a register write and with the device
  unchanged.
\<close>

theorem window_state_from_esr:
  "window_state dev =
     (if \<not> bit (ioread32 dev XWT_WWDT_ESR_OFFSET) 0 then Closed
      else if \<not> bit (ioread32 dev XWT_WWDT_ESR_OFFSET) 8 then Open else Closed)
   \<and> (bit (ioread32 dev XWT_WWDT_ESR_OFFSET) 0
        \<and> \<not> bit (ioread32 dev XWT_WWDT_ESR_OFFSET) 8
      \<longrightarrow> xilinx_wwdt_stop dev = (Inl WindowViolation, dev)
        \<and> xilinx_wwdt_keepalive dev = (Inr (), dev))"
  by (simp add: window_state_bits ioread32_def xilinx_wwdt_stop_def
      xilinx_wwdt_keepalive_def is_wwdt_in_closed_window_bits)

theorem window_state_from_esr_witness:
  "bit (ioread32 wwdt_wsw_clear XWT_WWDT_ESR_OFFSET) 0
   \<and> \<not> bit (ioread32 wwdt_wsw_clear XWT_WWDT_ESR_OFFSET) 8
   \<and> window_state wwdt_wsw_clear = Open
   \<and> xilinx_wwdt_stop wwdt_wsw_clear = (Inl WindowViolation, wwdt_wsw_clear)
   \<and> xilinx_wwdt_keepalive wwdt_wsw_clear = (Inr (), wwdt_wsw_clear)"
  using window_state_from_esr [of wwdt_wsw_clear]
  by (simp add: ioread32_def esr_wsw_clear)

text \<open>
  Claim C2 as the specification words it fails: with the enable bit and the
  phase-switch bit both set (\<open>0x101\<close>) the state reads Closed, stop succeeds and
  keepalive writes registers; with the enable bit set and the phase-switch bit
  clear (\<open>0x001\<close>) the state reads Open.
\<close>

theorem window_state_wsw_set_counterexample:
  "bit (ioread32 wwdt_wsw_set XWT_WWDT_ESR_OFFSET) 0
   \<and> bit (ioread32 wwdt_wsw_set XWT_WWDT_ESR_OFFSET) 8
   \<and> window_state wwdt_wsw_set = Closed
   \<and> fst (xilinx_wwdt_stop wwdt_wsw_set) = Inr ()
   \<and> length (iolog (snd (xilinx_wwdt_keepalive wwdt_wsw_set))) = 3
   \<and> bit (ioread32 wwdt_wsw_clear XWT_WWDT_ESR_OFFSET) 0
   \<and> \<not> bit (ioread32 wwdt_wsw_clear XWT_WWDT_ESR_OFFSET) 8
   \<and> window_state wwdt_wsw_clear = Open"
  by (simp add: ioread32_def esr_wsw_set esr_wsw_clear window_state_wsw_set
      window_state_wsw_clear xilinx_wwdt_stop_def xilinx_wwdt_keepalive_def
      is_wwdt_in_closed_window_bits Let_def iowrite32_def fields_wsw_set)

subsection \<open>Stop and keepalive behind the window gate\<close>

text \<open>
  Claim C3. For the window variant, stop invoked while the window state reads
  Open fails with the WindowViolation error and leaves the device, its registers
  and the log of register writes unchanged. Invoked while the window state reads
  Closed it succeeds, writes the master-write enable and then Enable/Status with
  the enable bit clear, and calls \<^verbatim>\<open>clk_disable\<close> exactly once if the watchdog
  was active and not at all otherwise.
\<close>

theorem wwdt_stop_gated:
  "(window_state dev = Open \<longrightarrow> xilinx_wwdt_stop dev = (Inl WindowViolation, dev))
   \<and> (window_state dev = Closed \<longrightarrow>
        fst (xilinx_wwdt_stop dev) = Inr ()
      \<and> iolog (snd (xilinx_wwdt_stop dev)) =
          iolog dev @ [(XWT_WWDT_MWR_OFFSET, XWT_WWDT_MWR_MASK),
                       (XWT_WWDT_ESR_OFFSET, NOT XWT_WWDT_ESR_WEN_MASK)]
      \<and> \<not> bit (regs (snd (xilinx_wwdt_stop dev)) XWT_WWDT_ESR_OFFSET) 0
      \<and> clk_disables (snd (xilinx_wwdt_stop dev)) =
          clk_disables dev + (if active dev then 1 else 0)
      \<and> clk_enables (snd (xilinx_wwdt_stop dev)) = clk_enables dev)"
  by (simp add: window_state_Open_iff window_state_Closed_iff xilinx_wwdt_stop_def
      Let_def iowrite32_def clk_disable_def watchdog_active_def not_WEN_bit0)

theorem wwdt_stop_gated_witness:
  "window_state wwdt_wsw_clear = Open
   \<and> xilinx_wwdt_stop wwdt_wsw_clear = (Inl WindowViolation, wwdt_wsw_clear)
   \<and> window_state wwdt_wsw_set = Closed
   \<and> fst (xilinx_wwdt_stop wwdt_wsw_set) = Inr ()
   \<and> \<not> bit (regs (snd (xilinx_wwdt_stop wwdt_wsw_set)) XWT_WWDT_ESR_OFFSET) 0
   \<and> clk_disables (snd (xilinx_wwdt_stop wwdt_wsw_set)) = 1
   \<and> window_state wwdt_100mhz = Closed
   \<and> clk_disables (snd (xilinx_wwdt_stop wwdt_100mhz)) = 0"
  using wwdt_stop_gated [of wwdt_wsw_clear] wwdt_stop_gated [of wwdt_wsw_set]
    wwdt_stop_gated [of wwdt_100mhz]
  by (simp add: window_state_wsw_clear window_state_wsw_set window_state_100mhz
      fields_wsw_set fields_100mhz)

text \<open>
  Claim C4. For the window variant, keepalive invoked while the window state
  reads Open returns success, performs no register write and leaves every
  register (indeed the whole device) unchanged.
\<close>

theorem wwdt_keepalive_open_noop:
  "window_state dev = Open \<Longrightarrow>
     fst (xilinx_wwdt_keepalive dev) = Inr ()
   \<and> iolog (snd (xilinx_wwdt_keepalive dev)) = iolog dev
   \<and> regs (snd (xilinx_wwdt_keepalive dev)) = regs dev
   \<and> snd (xilinx_wwdt_keepalive dev) = dev"
  by (simp add: window_state_Open_iff xilinx_wwdt_keepalive_def)

theorem wwdt_keepalive_open_noop_witness:
  "window_state wwdt_wsw_clear = Open
   \<and> fst (xilinx_wwdt_keepalive wwdt_wsw_clear) = Inr ()
   \<and> iolog (snd (xilinx_wwdt_keepalive wwdt_wsw_clear)) = []
   \<and> regs (snd (xilinx_wwdt_keepalive wwdt_wsw_clear)) XWT_WWDT_ESR_OFFSET = 0x001"
  using wwdt_keepalive_open_noop [OF window_state_wsw_clear]
  by (simp add: window_state_wsw_clear fields_wsw_clear esr_wsw_clear)

subsection \<open>Changing the timeout configuration\<close>

text \<open>
  Claim C5. set\_timeout and set\_pretimeout fail with the WindowViolation error
  if and only if the window state reads Open at the call. Every failure is a
  WindowViolation or a ConfigurationError, and on every failure the stored
  timeout and pretimeout (indeed the whole device) are unchanged.
\<close>

theorem wwdt_setters_fail_unchanged:
  "(fst (xilinx_wwdt_set_timeout dev new_time) = Inl WindowViolation
      \<longleftrightarrow> window_state dev = Open)
   \<and> (fst (xilinx_wwdt_set_pretimeout dev new_pretimeout) = Inl WindowViolation
      \<longleftrightarrow> window_state dev = Open)
   \<and> (fst (xilinx_wwdt_set_timeout dev new_time) = Inl e \<longrightarrow>
        (e = WindowViolation \<or> e = ConfigurationError)
      \<and> snd (xilinx_wwdt_set_timeout dev new_time) = dev
      \<and> timeout (snd (xilinx_wwdt_set_timeout dev new_time)) = timeout dev
      \<and> pretimeout (snd (xilinx_wwdt_set_timeout dev new_time)) = pretimeout dev)
   \<and> (fst (xilinx_wwdt_set_pretimeout dev new_pretimeout) = Inl e \<longrightarrow>
        (e = WindowViolation \<or> e = ConfigurationError)
      \<and> snd (xilinx_wwdt_set_pretimeout dev new_pretimeout) = dev
      \<and> timeout (snd (xilinx_wwdt_set_pretimeout dev new_pretimeout)) = timeout dev
      \<and> pretimeout (snd (xilinx_wwdt_set_pretimeout dev new_pretimeout))
          = pretimeout dev)"
  by (auto simp add: window_state_Open_iff xilinx_wwdt_set_timeout_def
      xilinx_wwdt_set_pretimeout_def Let_def split: if_splits)

theorem wwdt_setters_fail_unchanged_witness:
  "window_state wwdt_wsw_clear = Open
   \<and> fst (xilinx_wwdt_set_timeout wwdt_wsw_clear 20) = Inl WindowViolation
   \<and> fst (xilinx_wwdt_set_pretimeout wwdt_wsw_clear 5) = Inl WindowViolation
   \<and> timeout (snd (xilinx_wwdt_set_timeout wwdt_wsw_clear 20)) = 10
   \<and> pretimeout (snd (xilinx_wwdt_set_pretimeout wwdt_wsw_clear 5)) = 0
   \<and> fst (xilinx_wwdt_set_timeout wwdt_100mhz 100) = Inl ConfigurationError
   \<and> fst (xilinx_wwdt_set_pretimeout wwdt_100mhz 10) = Inl ConfigurationError
   \<and> timeout (snd (xilinx_wwdt_set_timeout wwdt_100mhz 100)) = 10
   \<and> pretimeout (snd (xilinx_wwdt_set_pretimeout wwdt_100mhz 10)) = 0"
proof -
  have open_t: "fst (xilinx_wwdt_set_timeout wwdt_wsw_clear 20) = Inl WindowViolation"
    and open_p: "fst (xilinx_wwdt_set_pretimeout wwdt_wsw_clear 5) = Inl WindowViolation"
    using wwdt_setters_fail_unchanged [of wwdt_wsw_clear 20 5 WindowViolation]
    by (simp_all add: window_state_wsw_clear)
  have range_t: "fst (xilinx_wwdt_set_timeout wwdt_100mhz 100) = Inl ConfigurationError"
    and range_p: "fst (xilinx_wwdt_set_pretimeout wwdt_100mhz 10) = Inl ConfigurationError"
    by (simp_all add: xilinx_wwdt_set_timeout_def xilinx_wwdt_set_pretimeout_def
        is_wwdt_in_closed_window_bits esr_100mhz fields_100mhz)
  show ?thesis
    using wwdt_setters_fail_unchanged [of wwdt_wsw_clear 20 5 WindowViolation]
      wwdt_setters_fail_unchanged [of wwdt_100mhz 100 10 ConfigurationError]
      open_t open_p range_t range_p
    by (simp add: window_state_wsw_clear fields_wsw_clear fields_100mhz)
qed

text \<open>
  Claim C6, as the code has it. set\_pretimeout, called while the window state
  reads Closed, accepts every new pretimeout \<open>P\<close> with
  \<open>min_timeout \<le> P < timeout\<close>: it succeeds, stores \<open>P\<close> and keeps the
  timeout. For every \<open>P \<ge> timeout\<close>, and for every \<open>P < min_timeout\<close>, it
  fails with a ConfigurationError and leaves the device unchanged. The window
  variant is attached with \<open>min_timeout = 1\<close>, so \<open>P = 0\<close> is refused.
\<close>

theorem wwdt_set_pretimeout_range:
  "window_state dev = Closed \<Longrightarrow>
     (min_timeout dev \<le> new_pretimeout \<and> new_pretimeout < timeout dev \<longrightarrow>
        fst (xilinx_wwdt_set_pretimeout dev new_pretimeout) = Inr ()
      \<and> pretimeout (snd (xilinx_wwdt_set_pretimeout dev new_pretimeout))
          = new_pretimeout
      \<and> timeout (snd (xilinx_wwdt_set_pretimeout dev new_pretimeout)) = timeout dev)
   \<and> (timeout dev \<le> new_pretimeout \<longrightarrow>
        xilinx_wwdt_set_pretimeout dev new_pretimeout = (Inl ConfigurationError, dev))
   \<and> (new_pretimeout < min_timeout dev \<longrightarrow>
        xilinx_wwdt_set_pretimeout dev new_pretimeout = (Inl ConfigurationError, dev))"
  by (auto simp add: window_state_Closed_iff xilinx_wwdt_set_pretimeout_def Let_def
      wwdt_start_config)

theorem wwdt_set_pretimeout_range_witness:
  "window_state wwdt_100mhz = Closed
   \<and> min_timeout wwdt_100mhz \<le> 2 \<and> 2 < timeout wwdt_100mhz
   \<and> fst (xilinx_wwdt_set_pretimeout wwdt_100mhz 2) = Inr ()
   \<and> pretimeout (snd (xilinx_wwdt_set_pretimeout wwdt_100mhz 2)) = 2
   \<and> timeout wwdt_100mhz \<le> 10
   \<and> xilinx_wwdt_set_pretimeout wwdt_100mhz 10 = (Inl ConfigurationError, wwdt_100mhz)
   \<and> 0 < min_timeout wwdt_100mhz
   \<and> xilinx_wwdt_set_pretimeout wwdt_100mhz 0 = (Inl ConfigurationError, wwdt_100mhz)"
  using wwdt_set_pretimeout_range [OF window_state_100mhz, of 2]
    wwdt_set_pretimeout_range [OF window_state_100mhz, of 10]
    wwdt_set_pretimeout_range [OF window_state_100mhz, of 0]
  by (simp add: window_state_100mhz fields_100mhz)

text \<open>
  Claim C6 as the specification words it fails at \<open>P = 0\<close>: on the device as
  attached (Closed, timeout 10, minimum timeout 1) the request to switch the
  pretimeout off is refused with a ConfigurationError.
\<close>

theorem wwdt_set_pretimeout_zero_counterexample:
  "window_state wwdt_100mhz = Closed
   \<and> 0 < timeout wwdt_100mhz
   \<and> min_timeout wwdt_100mhz = XWT_WWDT_MIN_TIMEOUT
   \<and> xilinx_wwdt_set_pretimeout wwdt_100mhz 0 = (Inl ConfigurationError, wwdt_100mhz)"
  by (simp add: window_state_100mhz fields_100mhz xilinx_wwdt_set_pretimeout_def
      is_wwdt_in_closed_window_bits esr_100mhz XWT_WWDT_MIN_TIMEOUT_def)

text \<open>
  Claim C10. Every successful window-variant set\_timeout stores the new timeout
  and resets the stored pretimeout to 0, whatever it was before.
\<close>

theorem wwdt_set_timeout_resets_pretimeout:
  "fst (xilinx_wwdt_set_timeout dev new_time) = Inr () \<Longrightarrow>
     pretimeout (snd (xilinx_wwdt_set_timeout dev new_time)) = 0
   \<and> timeout (snd (xilinx_wwdt_set_timeout dev new_time)) = new_time"
  by (auto simp add: xilinx_wwdt_set_timeout_def Let_def wwdt_start_config
      split: if_splits)

theorem wwdt_set_timeout_resets_pretimeout_witness:
  "pretimeout (wwdt_100mhz\<lparr>pretimeout := 2\<rparr>) = 2
   \<and> fst (xilinx_wwdt_set_timeout (wwdt_100mhz\<lparr>pretimeout := 2\<rparr>) 20) = Inr ()
   \<and> pretimeout (snd (xilinx_wwdt_set_timeout (wwdt_100mhz\<lparr>pretimeout := 2\<rparr>) 20)) = 0
   \<and> timeout (snd (xilinx_wwdt_set_timeout (wwdt_100mhz\<lparr>pretimeout := 2\<rparr>) 20)) = 20"
proof -
  have ok: "fst (xilinx_wwdt_set_timeout (wwdt_100mhz\<lparr>pretimeout := 2\<rparr>) 20) = Inr ()"
    by (simp add: xilinx_wwdt_set_timeout_def is_wwdt_in_closed_window_bits
        esr_100mhz fields_100mhz Let_def)
  show ?thesis
    using ok wwdt_set_timeout_resets_pretimeout [OF ok] by simp
qed

subsection \<open>Suspend\<close>

text \<open>
  Claim C9, as the code has it. Suspend always returns 0. If the watchdog is
  not active it does nothing; if it is active it calls the stop operation of
  the device type and drops the result. For an active window device this means:
  when the window state reads Closed, Enable/Status is written with the enable
  bit clear and the clock is disabled once; when it reads Open, stop is
  rejected by the window gate and suspend leaves the device as it was, with no
  register write and no \<^verbatim>\<open>clk_disable\<close>.
\<close>

theorem xwdt_suspend_gated:
  "fst (xwdt_suspend dev) = 0
   \<and> (\<not> active dev \<longrightarrow> snd (xwdt_suspend dev) = dev)
   \<and> (active dev \<longrightarrow> snd (xwdt_suspend dev) = snd (ops_stop dev))
   \<and> (active dev \<and> wdttype dev = XWDT_WWDT \<and> window_state dev = Open \<longrightarrow>
        snd (xwdt_suspend dev) = dev)
   \<and> (active dev \<and> wdttype dev = XWDT_WWDT \<and> window_state dev = Closed \<longrightarrow>
        \<not> bit (regs (snd (xwdt_suspend dev)) XWT_WWDT_ESR_OFFSET) 0
      \<and> clk_disables (snd (xwdt_suspend dev)) = Suc (clk_disables dev))"
  by (simp add: xwdt_suspend_def ops_stop_def watchdog_active_def
      window_state_Open_iff window_state_Closed_iff xilinx_wwdt_stop_def
      Let_def iowrite32_def clk_disable_def not_WEN_bit0)

theorem xwdt_suspend_gated_witness:
  "active wwdt_wsw_set \<and> wdttype wwdt_wsw_set = XWDT_WWDT
   \<and> window_state wwdt_wsw_set = Closed
   \<and> fst (xwdt_suspend wwdt_wsw_set) = 0
   \<and> \<not> bit (regs (snd (xwdt_suspend wwdt_wsw_set)) XWT_WWDT_ESR_OFFSET) 0
   \<and> clk_disables (snd (xwdt_suspend wwdt_wsw_set)) = 1
   \<and> active wwdt_wsw_clear \<and> wdttype wwdt_wsw_clear = XWDT_WWDT
   \<and> window_state wwdt_wsw_clear = Open
   \<and> snd (xwdt_suspend wwdt_wsw_clear) = wwdt_wsw_clear
   \<and> \<not> active wwdt_100mhz
   \<and> snd (xwdt_suspend wwdt_100mhz) = wwdt_100mhz"
proof -
  have closed: "fst (xwdt_suspend wwdt_wsw_set) = 0
      \<and> \<not> bit (regs (snd (xwdt_suspend wwdt_wsw_set)) XWT_WWDT_ESR_OFFSET) 0
      \<and> clk_disables (snd (xwdt_suspend wwdt_wsw_set)) = Suc (clk_disables wwdt_wsw_set)"
    using xwdt_suspend_gated [of wwdt_wsw_set] window_state_wsw_set fields_wsw_set(1,2)
    by blast
  have opened: "snd (xwdt_suspend wwdt_wsw_clear) = wwdt_wsw_clear"
    using xwdt_suspend_gated [of wwdt_wsw_clear] window_state_wsw_clear
      fields_wsw_clear(1,2)
    by blast
  have inactive: "snd (xwdt_suspend wwdt_100mhz) = wwdt_100mhz"
    using xwdt_suspend_gated [of wwdt_100mhz] fields_100mhz(1)
    by blast
  show ?thesis
    using closed opened inactive
    by (simp add: window_state_wsw_set window_state_wsw_clear fields_wsw_set
        fields_wsw_clear fields_100mhz)
qed

text \<open>
  Claim C9 as the specification words it fails: on an active window device
  whose window state reads Open, suspend returns 0 but performs no disable.
  The enable bit is still set afterwards, no register was written and the clock
  was not disabled.
\<close>

theorem xwdt_suspend_open_counterexample:
  "active wwdt_wsw_clear
   \<and> wdttype wwdt_wsw_clear = XWDT_WWDT
   \<and> fst (xilinx_wwdt_stop wwdt_wsw_clear) = Inl WindowViolation
   \<and> xwdt_suspend wwdt_wsw_clear = (0, wwdt_wsw_clear)
   \<and> bit (regs (snd (xwdt_suspend wwdt_wsw_clear)) XWT_WWDT_ESR_OFFSET) 0
   \<and> iolog (snd (xwdt_suspend wwdt_wsw_clear)) = []
   \<and> clk_disables (snd (xwdt_suspend wwdt_wsw_clear)) = 0"
  by (simp add: xwdt_suspend_def ops_stop_def watchdog_active_def fields_wsw_clear
      xilinx_wwdt_stop_def is_wwdt_in_closed_window_bits esr_wsw_clear)

subsection \<open>The window counts written by start\<close>

text \<open>
  Claim C1. Let the clock rate be \<open>f > 0\<close>, the timeout \<open>T\<close> with
  \<open>1 \<le> T \<le> (2^32 - 1) div f\<close> and the pretimeout \<open>P < T\<close>, and let the window
  start succeed (it fails only when the clock cannot be enabled). Then the
  First-Window and Second-Window registers it leaves add up to \<open>f * T\<close>, modulo
  \<open>2^32\<close> and in fact exactly. With \<open>P = 0\<close> it writes First-Window \<open>0\<close>,
  Second-Window \<open>f * T\<close> and Function-Control \<open>0\<close>; with \<open>P > 0\<close> it writes
  First-Window \<open>f * T - f * P\<close> and Second-Window \<open>f * P\<close>. For
  \<open>f = 100 000 000\<close>, \<open>T = 10\<close> and \<open>P = 2\<close> these are \<open>800 000 000\<close> and
  \<open>200 000 000\<close>.
\<close>

theorem wwdt_start_window_sum:
  assumes ok: "fst (xilinx_wwdt_start dev) = Inr ()"
    and f: "0 < unat (clk_rate dev)"
    and T1: "1 \<le> unat (timeout dev)"
    and Tmax: "unat (timeout dev) \<le> (2 ^ 32 - 1) div unat (clk_rate dev)"
    and P: "unat (pretimeout dev) < unat (timeout dev)"
  shows "(unat (regs (snd (xilinx_wwdt_start dev)) XWT_WWDT_FWR_OFFSET)
          + unat (regs (snd (xilinx_wwdt_start dev)) XWT_WWDT_SWR_OFFSET)) mod 2 ^ 32
         = (unat (clk_rate dev) * unat (timeout dev)) mod 2 ^ 32
       \<and> unat (regs (snd (xilinx_wwdt_start dev)) XWT_WWDT_FWR_OFFSET)
          + unat (regs (snd (xilinx_wwdt_start dev)) XWT_WWDT_SWR_OFFSET)
         = unat (clk_rate dev) * unat (timeout dev)
       \<and> (pretimeout dev = 0 \<longrightarrow>
            regs (snd (xilinx_wwdt_start dev)) XWT_WWDT_FWR_OFFSET = 0
          \<and> unat (regs (snd (xilinx_wwdt_start dev)) XWT_WWDT_SWR_OFFSET)
              = unat (clk_rate dev) * unat (timeout dev)
          \<and> regs (snd (xilinx_wwdt_start dev)) XWT_WWDT_FCR_OFFSET = 0)
       \<and> (pretimeout dev \<noteq> 0 \<longrightarrow>
            unat (regs (snd (xilinx_wwdt_start dev)) XWT_WWDT_FWR_OFFSET)
              = unat (clk_rate dev) * unat (timeout dev)
                - unat (clk_rate dev) * unat (pretimeout dev)
          \<and> unat (regs (snd (xilinx_wwdt_start dev)) XWT_WWDT_SWR_OFFSET)
              = unat (clk_rate dev) * unat (pretimeout dev))
       \<and> regs (snd (xilinx_wwdt_start (wwdt_100mhz\<lparr>pretimeout := 2\<rparr>)))
            XWT_WWDT_FWR_OFFSET = 800000000
       \<and> regs (snd (xilinx_wwdt_start (wwdt_100mhz\<lparr>pretimeout := 2\<rparr>)))
            XWT_WWDT_SWR_OFFSET = 200000000"
proof -
  let ?f = "clk_rate dev" and ?T = "timeout dev" and ?P = "pretimeout dev"
  let ?time_out = "?f * ucast ?T" and ?pre_timeout = "?f * ucast ?P"
  let ?FWR = "regs (snd (xilinx_wwdt_start dev)) XWT_WWDT_FWR_OFFSET"
  let ?SWR = "regs (snd (xilinx_wwdt_start dev)) XWT_WWDT_SWR_OFFSET"
  let ?FCR = "regs (snd (xilinx_wwdt_start dev)) XWT_WWDT_FCR_OFFSET"
  have "unat ?T * unat ?f \<le> 2 ^ 32 - 1"
    using Tmax f by (simp add: less_eq_div_iff_mult_less_eq)
  then have total: "unat ?f * unat ?T < 2 ^ 32"
    by (simp add: mult.commute)
  have PT: "unat ?f * unat ?P \<le> unat ?f * unat ?T"
    using P by simp
  have pre: "unat ?f * unat ?P < 2 ^ 32"
    using PT total by (rule le_less_trans)
  note t = unat_cycles [OF total] and p = unat_cycles [OF pre]
  have pre0: "?pre_timeout = 0 \<longleftrightarrow> ?P = 0"
  proof -
    have "?pre_timeout = 0 \<longleftrightarrow> unat ?pre_timeout = 0"
      by (simp add: unat_eq_0)
    also have "\<dots> \<longleftrightarrow> unat ?P = 0"
      using f by (simp add: p(1))
    also have "\<dots> \<longleftrightarrow> ?P = 0"
      by (simp add: unat_eq_0)
    finally show ?thesis .
  qed
  have le: "?pre_timeout \<le> ?time_out"
    using PT by (simp add: word_le_nat_alt t(1) p(1))
  have diff: "unat (ucast (?time_out - ?pre_timeout) :: u32)
      = unat ?f * unat ?T - unat ?f * unat ?P"
  proof -
    have "unat (?time_out - ?pre_timeout) = unat ?f * unat ?T - unat ?f * unat ?P"
      using unat_sub [OF le] by (simp add: t(1) p(1))
    moreover have "unat ?f * unat ?T - unat ?f * unat ?P < 2 ^ 32"
      using total by simp
    ultimately show ?thesis
      by (simp add: unsigned_ucast_eq take_bit_nat_eq_self)
  qed
  note w = wwdt_start_windows_written [OF ok]
  have zero: "?P = 0 \<Longrightarrow> ?FWR = 0 \<and> unat ?SWR = unat ?f * unat ?T \<and> ?FCR = 0"
    using pre0 t(2) by (simp add: w)
  have nonzero: "?P \<noteq> 0 \<Longrightarrow>
      unat ?FWR = unat ?f * unat ?T - unat ?f * unat ?P \<and> unat ?SWR = unat ?f * unat ?P"
    using pre0 diff p(2) by (simp add: w)
  have sum: "unat ?FWR + unat ?SWR = unat ?f * unat ?T"
  proof (cases "?P = 0")
    case True
    with zero show ?thesis by simp
  next
    case False
    with nonzero PT show ?thesis by simp
  qed
  have ok2: "fst (xilinx_wwdt_start (wwdt_100mhz\<lparr>pretimeout := 2\<rparr>)) = Inr ()"
    by (simp add: wwdt_start_success_iff fields_100mhz)
  have scenario: "regs (snd (xilinx_wwdt_start (wwdt_100mhz\<lparr>pretimeout := 2\<rparr>)))
            XWT_WWDT_FWR_OFFSET = 800000000
       \<and> regs (snd (xilinx_wwdt_start (wwdt_100mhz\<lparr>pretimeout := 2\<rparr>)))
            XWT_WWDT_SWR_OFFSET = 200000000"
    by (simp add: wwdt_start_windows_written [OF ok2] fields_100mhz)
  have sum_mod: "(unat ?FWR + unat ?SWR) mod 2 ^ 32 = (unat ?f * unat ?T) mod 2 ^ 32"
    by (simp only: sum)
  from sum_mod sum zero nonzero scenario show ?thesis
    by blast
qed

theorem wwdt_start_window_sum_witness:
  "fst (xilinx_wwdt_start wwdt_100mhz) = Inr ()
   \<and> 0 < unat (clk_rate wwdt_100mhz)
   \<and> 1 \<le> unat (timeout wwdt_100mhz)
   \<and> unat (timeout wwdt_100mhz) \<le> (2 ^ 32 - 1) div unat (clk_rate wwdt_100mhz)
   \<and> unat (pretimeout wwdt_100mhz) < unat (timeout wwdt_100mhz)
   \<and> regs (snd (xilinx_wwdt_start wwdt_100mhz)) XWT_WWDT_FWR_OFFSET = 0
   \<and> unat (regs (snd (xilinx_wwdt_start wwdt_100mhz)) XWT_WWDT_SWR_OFFSET) = 1000000000
   \<and> regs (snd (xilinx_wwdt_start wwdt_100mhz)) XWT_WWDT_FCR_OFFSET = 0"
proof -
  have ok: "fst (xilinx_wwdt_start wwdt_100mhz) = Inr ()"
    by (simp add: wwdt_start_success_iff fields_100mhz)
  have f: "0 < unat (clk_rate wwdt_100mhz)"
    and T1: "1 \<le> unat (timeout wwdt_100mhz)"
    and Tmax: "unat (timeout wwdt_100mhz) \<le> (2 ^ 32 - 1) div unat (clk_rate wwdt_100mhz)"
    and P: "unat (pretimeout wwdt_100mhz) < unat (timeout wwdt_100mhz)"
    by (simp_all add: fields_100mhz)
  show ?thesis
    using ok f T1 Tmax P wwdt_start_window_sum [OF ok f T1 Tmax P]
    by (simp add: fields_100mhz)
qed

subsection \<open>The maximum timeout computed at attach\<close>

text \<open>
  For a window device and a clock rate \<open>pfreq > 0\<close>, attach stores
  \<open>max_timeout = (2^32 - 1) div pfreq\<close>, the minimum 1, the default timeout 10
  and the pretimeout of the device description.
\<close>

lemma xwdt_probe_wwdt_max_timeout:
  assumes "wdttype dev = XWDT_WWDT" "pfreq \<noteq> 0"
  shows "\<exists>dev'. xwdt_probe_timeouts dev pfreq pre_timeout = Probe_continues dev'
           \<and> unat (max_timeout dev') = (2 ^ 32 - 1) div unat pfreq
           \<and> min_timeout dev' = 1 \<and> timeout dev' = 10
           \<and> pretimeout dev' = pre_timeout"
  using assms
  by (simp add: xwdt_probe_timeouts_def Let_def xwt_consts unat_div)

text \<open>
  Claim C7 asks that with clock rate 0 the computation of the maximum timeout
  fails with an error instead of dividing. The code does not: the window branch
  of attach divides \<^verbatim>\<open>U32_MAX\<close> by \<^verbatim>\<open>pfreq\<close> with no check, so for
  \<open>pfreq = 0\<close> (no clock and no clock-frequency property) it executes a
  division by zero, where the plain branch tests \<^verbatim>\<open>pfreq\<close> first and
  goes on with the device unchanged.
\<close>

theorem xwdt_probe_zero_rate_divides:
  "xwdt_probe_timeouts (dev\<lparr>wdttype := XWDT_WWDT\<rparr>) 0 pre_timeout = Undefined_behaviour
   \<and> xwdt_probe_timeouts (dev\<lparr>wdttype := XWDT_WDT\<rparr>) 0 pre_timeout
       = Probe_continues (dev\<lparr>wdttype := XWDT_WDT\<rparr>)"
  by (simp add: xwdt_probe_timeouts_def)

subsection \<open>The self test\<close>

text \<open>
  The self test is a total function: it returns on every sequence of register
  values. If some read after the first, up to read number 65538, differs from
  the first read, it reports pass.
\<close>

lemma xwdt_selftest_pass:
  assumes "1 \<le> k" "k \<le> 65538" "tbr k \<noteq> tbr 0"
  shows "fst (xwdt_selftest tbr) = NOT XWT_TIMER_FAILED"
proof -
  obtain n' tv2' where r: "selftest_loop tbr (tbr 0) 0 2 (tbr 1) = (n', tv2')"
    by (cases "selftest_loop tbr (tbr 0) 0 2 (tbr 1)")
  have "tv2' \<noteq> tbr 0"
  proof
    assume e: "tv2' = tbr 0"
    have i0: "(0::int) \<le> XWT_MAX_SELFTEST_LOOP_COUNT + 1"
      by (simp add: XWT_MAX_SELFTEST_LOOP_COUNT_def)
    have r': "selftest_loop tbr (tbr 0) 0 2 (tbr 1) = (n', tbr 0)"
      using r e by simp
    note f = selftest_loop_fail [OF i0 r']
    have n': "n' = 65539"
      using f by (simp add: XWT_MAX_SELFTEST_LOOP_COUNT_def)
    have "k = 1 \<or> (2 \<le> k \<and> k < n')"
      using assms(1,2) unfolding n' by arith
    moreover have "tbr 1 = tbr 0"
      using f by blast
    moreover have "2 \<le> k \<and> k < n' \<Longrightarrow> tbr k = tbr 0"
      using f by blast
    ultimately have "tbr k = tbr 0"
      by blast
    with assms(3) show False by simp
  qed
  with r show ?thesis by (simp add: xwdt_selftest_def)
qed

text \<open>
  Claim C8 asks that on a register that never changes the self test reports
  failure after exactly the bound number of reads, the bound being
  \<^verbatim>\<open>XWT_MAX_SELFTEST_LOOP_COUNT\<close> = 65536 loop iterations. The code does report
  failure, but its loop condition is \<^verbatim>\<open>i <= XWT_MAX_SELFTEST_LOOP_COUNT\<close> with
  \<^verbatim>\<open>i\<close> starting at 0: the loop reads the register 65537 times, one more than
  the bound, after the two initial reads (65539 reads in all).
\<close>

theorem xwdt_selftest_stuck_reads:
  "xwdt_selftest (stuck_timebase v) = (XWT_TIMER_FAILED, 65539)
   \<and> fst (selftest_loop (stuck_timebase v) v 0 2 v) - 2
       = nat XWT_MAX_SELFTEST_LOOP_COUNT + 1"
proof -
  have "selftest_loop (stuck_timebase v) v 0 2 v = (65539, v)"
    using selftest_loop_stuck [of 0 v 2] by (simp add: XWT_MAX_SELFTEST_LOOP_COUNT_def)
  then show ?thesis
    by (simp add: xwdt_selftest_def stuck_timebase_def XWT_MAX_SELFTEST_LOOP_COUNT_def)
qed

end
